theory Spec2Isabelle
  imports Main "HOL-Library.Word" "HOL-Library.AList"
begin

unbundle bit_operations_syntax

section \<open>Data model of the RTSP camera\<close>

text \<open>
  The embedding follows the Go source of the camera (type \<open>rtspCamera\<close> and its methods).
  Calls into libraries (the RTSP client, the RTP depacketizers and encoder, the raw frame
  decoder, the format processor) are opaque: their behaviour is a parameter of the model,
  a function from the library object's state and the arguments to the result and the new
  state. One type variable \<open>'x\<close> stands for the state of any such object; each object keeps
  a state value of its own. Logger calls change no state and are left out. The calls the
  camera makes are recorded, in order, in the field \<open>trace\<close>.
\<close>

type_synonym byte = "8 word"
type_synonym nalu = "byte list"
type_synonym au = "nalu list"

text \<open>\<open>time.Duration\<close> is a signed 64-bit count; the camera only copies and compares it.\<close>
type_synonym duration = int

text \<open>\<open>rtppassthrough.SubscriptionID\<close> (a UUID).\<close>
type_synonym sub_id = nat

text \<open>\<open>image.Image\<close>, an opaque decoded picture.\<close>
datatype image = Image nat

text \<open>\<open>rtp.Packet\<close>: the header field the camera touches (a \<open>uint32\<close>) and the payload.\<close>
record rtp_packet =
  Timestamp :: "32 word"
  Payload :: "byte list"

text \<open>\<open>unit.H264\<close>: \<open>AU\<close> is a slice, \<open>None\<close> is Go's \<open>nil\<close>.\<close>
record h264_unit =
  AU :: "au option"
  PTS :: duration
  RTPPackets :: "rtp_packet list"

text \<open>\<open>unit.Unit\<close> is an interface; \<open>OtherUnit\<close> is a value of any other dynamic type.\<close>
datatype unit_t = H264Unit h264_unit | OtherUnit

text \<open>
  The codec tag returned by \<open>getStreamInfo\<close>. Its declaration is outside the sources at
  hand; \<open>reconnectClient\<close> switches on the constants \<open>H264\<close> and \<open>H265\<close> and has a default
  branch.
\<close>
datatype videoCodec = H264 | H265 | OtherCodec

datatype error =
    ErrNilCamera
  | ErrLibrary nat
  | ErrH264TrackNotFound
  | ErrH265TrackNotFound
  | ErrCodecNotSupported videoCodec
  | ErrH265WithPassthrough
  | ErrTypeConversion
  | ErrBFrames
  | ErrIdNotFound
  | ErrH264PassthroughNotEnabled

text \<open>The errors of \<open>rtph264.Decoder.Decode\<close> and \<open>rtph265.Decoder.Decode\<close>.\<close>
datatype depkt_error =
    ErrNonStartingPacketAndNoPrevious
  | ErrMorePacketsNeeded
  | ErrDepacketize nat

datatype event =
    ClientClose
  | DecoderClose
  | ClientStart
  | ClientDescribe
  | CallGetStreamInfo
  | CallCreateDecoder videoCodec
  | CallNewRawDecoder videoCodec
  | CallNewFormatProcessor
  | ClientSetup
  | ClientOnPacketRTP
  | ClientPlay
  | CallRtpDecode rtp_packet
  | CallRawDecode nalu
  | StoreFrame image
  | CallPacketPTS rtp_packet
  | CallProcessRTPPacket rtp_packet duration
  | CallPublish sub_id unit_t
  | SubStart sub_id
  | SubClose sub_id

text \<open>The library behaviour the per-packet code depends on.\<close>
record 'x externals =
  rtpDecode :: "'x \<Rightarrow> rtp_packet \<Rightarrow> (depkt_error + au) \<times> 'x"
  rawDecode :: "'x \<Rightarrow> nalu \<Rightarrow> (error + image option) \<times> 'x"
  IDRPresent :: "au \<Rightarrow> bool"
  packetPTS :: "'x \<Rightarrow> rtp_packet \<Rightarrow> duration option \<times> 'x"
  processRTPPacket :: "'x \<Rightarrow> rtp_packet \<Rightarrow> duration \<Rightarrow> (error + unit_t) \<times> 'x"
  encode :: "'x \<Rightarrow> au \<Rightarrow> (error + rtp_packet list) \<times> 'x"

text \<open>The variables captured by the closure \<open>unitSubscriberFunc\<close> of \<open>SubscribeRTP\<close>.\<close>
record 'x sub_closure =
  firstReceived :: bool
  lastPTS :: duration
  encoder :: 'x

record 'x subAndCB =
  cb :: "'x sub_closure"
  sub :: sub_id

text \<open>The variables captured by the packet callbacks that \<open>initH264\<close> builds.\<close>
record 'x h264_closure =
  rtpDec :: 'x
  iFrameReceived :: bool
  waitingForIframeLogged :: bool

text \<open>
  The callback registered with \<open>OnPacketRTP\<close>: \<open>storeImage\<close> alone, \<open>publishToWebRTC\<close>
  followed by \<open>storeImage\<close> (with the format processor it captured), or the H265 callback
  (with its depacketizer).
\<close>
datatype 'x handler =
    H264Raw "'x h264_closure"
  | H264Passthrough "'x h264_closure" 'x
  | H265Raw 'x

text \<open>\<open>gortsplib.Client\<close>, as far as the camera uses it.\<close>
record 'x client_t =
  timeDec :: 'x
  onPacketRTP :: "'x handler option"
  playing :: bool

record 'x rtspCamera =
  client :: "'x client_t option"
  rawDecoder :: "'x option"
  latestFrame :: "image option"
  rtpH264Passthrough :: bool
  subAndCBByID :: "(sub_id \<times> 'x subAndCB) list"
  trace :: "event list"

text \<open>A function either returns or panics (a nil dereference, an index out of range).\<close>
datatype 'a outcome = Return 'a | Panic

section \<open>The passthrough encoding function of a subscriber\<close>

text \<open>
  The part of \<open>unitSubscriberFunc\<close> from \<open>lastPTS = tunit.PTS\<close> on. The result is what the
  function returns, the closure's variables afterwards, and the batch handed to
  \<open>packetsCB\<close> when it is called. \<open>tunit.RTPPackets[0]\<close> is read inside the loop over a
  non-empty \<open>pkts\<close>, so it panics exactly when \<open>RTPPackets\<close> is empty. The encoder returns
  pointers to packets it has just built; the model takes the packets as values.
\<close>
definition encodeAndDeliver ::
  "'x externals \<Rightarrow> (rtp_packet list \<Rightarrow> error option) \<Rightarrow> 'x sub_closure \<Rightarrow> h264_unit \<Rightarrow> au \<Rightarrow>
   error option outcome \<times> 'x sub_closure \<times> rtp_packet list option" where
  "encodeAndDeliver ext packetsCB st tunit a =
    (let st1 = st\<lparr>lastPTS := PTS tunit\<rparr> in
     case encode ext (encoder st1) a of (res, e') \<Rightarrow>
       let st2 = st1\<lparr>encoder := e'\<rparr> in
       (case res of
          Inl err \<Rightarrow> (Return None, st2, None)
        | Inr pkts \<Rightarrow>
            if length pkts = 0 then (Return None, st2, None)
            else (case RTPPackets tunit of
                    [] \<Rightarrow> (Panic, st2, None)
                  | p0 # rest \<Rightarrow>
                      let pkts' = map (\<lambda>pkt. pkt\<lparr>Timestamp := Timestamp pkt + Timestamp p0\<rparr>) pkts
                      in (Return (packetsCB pkts'), st2, Some pkts'))))"

definition unitSubscriberFunc ::
  "'x externals \<Rightarrow> (rtp_packet list \<Rightarrow> error option) \<Rightarrow> 'x sub_closure \<Rightarrow> unit_t \<Rightarrow>
   error option outcome \<times> 'x sub_closure \<times> rtp_packet list option" where
  "unitSubscriberFunc ext packetsCB st u =
    (case u of
       OtherUnit \<Rightarrow> (Return (Some ErrTypeConversion), st, None)
     | H264Unit tunit \<Rightarrow>
         (case AU tunit of
            None \<Rightarrow> (Return None, st, None)
          | Some a \<Rightarrow>
              if \<not> firstReceived st then
                encodeAndDeliver ext packetsCB (st\<lparr>firstReceived := True\<rparr>) tunit a
              else if PTS tunit < lastPTS st then (Return (Some ErrBFrames), st, None)
              else encodeAndDeliver ext packetsCB st tunit a))"

section \<open>The subscription registry\<close>

text \<open>
  \<open>subAndCBByID\<close> is a Go map. It is kept as an association list with \<open>map_of\<close> for
  lookup, \<open>AList.update\<close> for assignment and \<open>AList.delete\<close> for \<open>delete\<close>; Go leaves the
  iteration order of a map open, the model iterates in list order. \<open>SubscribeRTP\<close> takes
  the results of \<open>rtppassthrough.NewStreamSubscription\<close> (an error, or a subscription with
  its id) and of \<open>encoder.Init\<close> (an error, or the encoder) as arguments; the closure it
  registers starts with \<open>firstReceived\<close> false and \<open>lastPTS\<close> zero.
\<close>
definition SubscribeRTP ::
  "error + sub_id \<Rightarrow> error + 'x \<Rightarrow> 'x rtspCamera \<Rightarrow> (error + sub_id) \<times> 'x rtspCamera" where
  "SubscribeRTP newSubscription encoderInit rc =
    (if \<not> rtpH264Passthrough rc then (Inl ErrH264PassthroughNotEnabled, rc)
     else
      (case newSubscription of
         Inl err \<Rightarrow> (Inl err, rc)
       | Inr ident \<Rightarrow>
          (case encoderInit of
             Inl err \<Rightarrow> (Inl err, rc)
           | Inr e0 \<Rightarrow>
              (Inr ident,
               rc\<lparr>subAndCBByID :=
                     AList.update ident
                       \<lparr>cb = \<lparr>firstReceived = False, lastPTS = 0, encoder = e0\<rparr>, sub = ident\<rparr>
                       (subAndCBByID rc),
                   trace := trace rc @ [SubStart ident]\<rparr>))))"

definition Unsubscribe :: "'x rtspCamera \<Rightarrow> sub_id \<Rightarrow> error option \<times> 'x rtspCamera" where
  "Unsubscribe rc ident =
    (case map_of (subAndCBByID rc) ident of
       None \<Rightarrow> (Some ErrIdNotFound, rc)
     | Some s \<Rightarrow>
         (None, rc\<lparr>subAndCBByID := AList.delete ident (subAndCBByID rc),
                   trace := trace rc @ [SubClose ident]\<rparr>))"

section \<open>The packet callbacks\<close>

definition called :: "event \<Rightarrow> 'x rtspCamera \<Rightarrow> 'x rtspCamera" where
  "called e rc = rc\<lparr>trace := trace rc @ [e]\<rparr>"

text \<open>
  The loop \<open>for _, nalu := range au\<close> shared by both codecs: a decode error ends the
  callback, a non-nil image replaces \<open>latestFrame\<close>. \<open>None\<close> is the panic of calling
  \<open>decode\<close> on a nil \<open>rawDecoder\<close>.
\<close>
fun decode_nalus :: "'x externals \<Rightarrow> au \<Rightarrow> 'x rtspCamera \<Rightarrow> 'x rtspCamera option" where
  "decode_nalus ext [] rc = Some rc"
| "decode_nalus ext (n # ns) rc =
    (case rawDecoder rc of
       None \<Rightarrow> None
     | Some d \<Rightarrow>
         (case rawDecode ext d n of (res, d') \<Rightarrow>
            let rc1 = called (CallRawDecode n) (rc\<lparr>rawDecoder := Some d'\<rparr>) in
            (case res of
               Inl err \<Rightarrow> Some rc1
             | Inr None \<Rightarrow> decode_nalus ext ns rc1
             | Inr (Some img) \<Rightarrow>
                 decode_nalus ext ns (called (StoreFrame img) (rc1\<lparr>latestFrame := Some img\<rparr>)))))"

text \<open>The closure \<open>storeImage\<close> of \<open>initH264\<close>.\<close>
definition storeImage ::
  "'x externals \<Rightarrow> 'x h264_closure \<times> 'x rtspCamera \<Rightarrow> rtp_packet \<Rightarrow>
   ('x h264_closure \<times> 'x rtspCamera) option" where
  "storeImage ext s pkt =
    (case s of (cl, rc) \<Rightarrow>
      (case rtpDecode ext (rtpDec cl) pkt of (res, r') \<Rightarrow>
         let cl1 = cl\<lparr>rtpDec := r'\<rparr>; rc1 = called (CallRtpDecode pkt) rc in
         (case res of
            Inl err \<Rightarrow> Some (cl1, rc1)
          | Inr a \<Rightarrow>
              if \<not> iFrameReceived cl1 then
                (if \<not> IDRPresent ext a then
                   Some (cl1\<lparr>waitingForIframeLogged := True\<rparr>, rc1)
                 else map_option (Pair (cl1\<lparr>iFrameReceived := True\<rparr>)) (decode_nalus ext a rc1))
              else map_option (Pair cl1) (decode_nalus ext a rc1))))"

text \<open>The callback that \<open>initH265\<close> registers; its only captured variable is the depacketizer.\<close>
definition onPacketRTP_h265 ::
  "'x externals \<Rightarrow> 'x \<times> 'x rtspCamera \<Rightarrow> rtp_packet \<Rightarrow> ('x \<times> 'x rtspCamera) option" where
  "onPacketRTP_h265 ext s pkt =
    (case s of (r, rc) \<Rightarrow>
      (case rtpDecode ext r pkt of (res, r') \<Rightarrow>
         let rc1 = called (CallRtpDecode pkt) rc in
         (case res of
            Inl err \<Rightarrow> Some (r', rc1)
          | Inr a \<Rightarrow> map_option (Pair r') (decode_nalus ext a rc1))))"

text \<open>
  The closure \<open>publishToWebRTC\<close>; the state it carries is the format processor \<open>fp\<close>.
  \<open>sub.Publish\<close> queues the call of the subscriber's function; the model records the call of
  \<open>Publish\<close>. \<open>None\<close> is the panic of calling \<open>PacketPTS\<close> on a nil client.
\<close>
definition publishToWebRTC ::
  "'x externals \<Rightarrow> 'x \<times> 'x rtspCamera \<Rightarrow> rtp_packet \<Rightarrow> ('x \<times> 'x rtspCamera) option" where
  "publishToWebRTC ext s pkt =
    (case s of (fp, rc) \<Rightarrow>
      (case client rc of
         None \<Rightarrow> None
       | Some c \<Rightarrow>
          (case packetPTS ext (timeDec c) pkt of (ok, t') \<Rightarrow>
             let rc1 = called (CallPacketPTS pkt) (rc\<lparr>client := Some (c\<lparr>timeDec := t'\<rparr>)\<rparr>) in
             (case ok of
                None \<Rightarrow> Some (fp, rc1)
              | Some pts \<Rightarrow>
                 (case processRTPPacket ext fp pkt pts of (res, fp') \<Rightarrow>
                    let rc2 = called (CallProcessRTPPacket pkt pts) rc1 in
                    (case res of
                       Inl err \<Rightarrow> Some (fp', rc2)
                     | Inr u \<Rightarrow>
                        if length (subAndCBByID rc2) = 0 then Some (fp', rc2)
                        else Some (fp', rc2\<lparr>trace := trace rc2 @
                               map (\<lambda>(ident, s). CallPublish ident u) (subAndCBByID rc2)\<rparr>)))))))"

text \<open>The callback installed when \<open>rtpH264Passthrough\<close> is set.\<close>
definition onPacketRTP_passthrough ::
  "'x externals \<Rightarrow> 'x h264_closure \<times> 'x \<times> 'x rtspCamera \<Rightarrow> rtp_packet \<Rightarrow>
   ('x h264_closure \<times> 'x \<times> 'x rtspCamera) option" where
  "onPacketRTP_passthrough ext s pkt =
    (case s of (cl, fp, rc) \<Rightarrow>
      (case publishToWebRTC ext (fp, rc) pkt of
         None \<Rightarrow> None
       | Some (fp', rc1) \<Rightarrow>
          (case storeImage ext (cl, rc1) pkt of
             None \<Rightarrow> None
           | Some (cl', rc2) \<Rightarrow> Some (cl', fp', rc2))))"

text \<open>A sequence of packets delivered to \<open>storeImage\<close>, in arrival order.\<close>
fun run_storeImage ::
  "'x externals \<Rightarrow> 'x h264_closure \<times> 'x rtspCamera \<Rightarrow> rtp_packet list \<Rightarrow>
   ('x h264_closure \<times> 'x rtspCamera) option" where
  "run_storeImage ext s [] = Some s"
| "run_storeImage ext s (pkt # pkts) =
    (case storeImage ext s pkt of None \<Rightarrow> None | Some s' \<Rightarrow> run_storeImage ext s' pkts)"

section \<open>Connecting\<close>

text \<open>\<open>format.H264\<close> and \<open>format.H265\<close>: the parameter sets of the SDP (H264 has no VPS).\<close>
record format_params =
  VPS :: "nalu option"
  SPS :: "nalu option"
  PPS :: "nalu option"

text \<open>
  \<open>description.Session\<close>, seen through \<open>FindFormat\<close>: the H264 format of the first media
  that has one, and the same for H265; \<open>None\<close> when \<open>FindFormat\<close> returns nil.
\<close>
record session =
  h264Format :: "format_params option"
  h265Format :: "format_params option"

text \<open>
  What the network and the libraries answer during one call of \<open>reconnectClient\<close>.
  \<open>newH264Decoder\<close>, \<open>newH265Decoder\<close>, \<open>getStreamInfo\<close> and \<open>formatprocessor.New\<close> are
  outside the sources at hand and are taken as given: each returns an error or a value.
\<close>
record 'x conn_env =
  newClientState :: 'x
  startResult :: "error option"
  describeResult :: "error + session"
  streamInfoResult :: "error + videoCodec"
  createDecoderResult :: "error + 'x"
  newRawDecoderResult :: "error + 'x"
  newFormatProcessorResult :: "error + 'x"
  setupResult :: "error option"
  playResult :: "error option"

definition closeConnection :: "'x rtspCamera \<Rightarrow> 'x rtspCamera" where
  "closeConnection rc =
    (let rc1 = (case client rc of
                  None \<Rightarrow> rc
                | Some c \<Rightarrow> called ClientClose (rc\<lparr>client := None\<rparr>))
     in (case rawDecoder rc1 of
           None \<Rightarrow> rc1
         | Some d \<Rightarrow> called DecoderClose (rc1\<lparr>rawDecoder := None\<rparr>)))"

text \<open>
  \<open>rc.rawDecoder.decode(p)\<close> for a parameter set of the SDP, result ignored. It is only
  called right after \<open>rc.rawDecoder\<close> has been assigned a decoder.
\<close>
definition feedParam :: "'x externals \<Rightarrow> nalu option \<Rightarrow> 'x rtspCamera \<Rightarrow> 'x rtspCamera" where
  "feedParam ext p rc =
    (case p of
       None \<Rightarrow> rc
     | Some n \<Rightarrow>
        (case rawDecoder rc of
           None \<Rightarrow> rc
         | Some d \<Rightarrow> called (CallRawDecode n) (rc\<lparr>rawDecoder := Some (snd (rawDecode ext d n))\<rparr>)))"

text \<open>\<open>rc.client.OnPacketRTP(media, forma, h)\<close>; \<open>rc.client\<close> is the client just created.\<close>
definition registerHandler :: "'x handler \<Rightarrow> 'x rtspCamera \<Rightarrow> 'x rtspCamera" where
  "registerHandler h rc =
    called ClientOnPacketRTP (rc\<lparr>client := map_option (\<lambda>c. c\<lparr>onPacketRTP := Some h\<rparr>) (client rc)\<rparr>)"

definition initH264 ::
  "'x conn_env \<Rightarrow> 'x externals \<Rightarrow> session \<Rightarrow> 'x rtspCamera \<Rightarrow> error option \<times> 'x rtspCamera" where
  "initH264 env ext sess rc =
    (case h264Format sess of
       None \<Rightarrow> (Some ErrH264TrackNotFound, rc)
     | Some f \<Rightarrow>
        let rc1 = called (CallCreateDecoder H264) rc in
        (case createDecoderResult env of
           Inl err \<Rightarrow> (Some err, rc1)
         | Inr r0 \<Rightarrow>
            let rc2 = called (CallNewRawDecoder H264) rc1 in
            (case newRawDecoderResult env of
               Inl err \<Rightarrow> (Some err, rc2\<lparr>rawDecoder := None\<rparr>)
             | Inr d0 \<Rightarrow>
                let rc3 = feedParam ext (PPS f) (feedParam ext (SPS f) (rc2\<lparr>rawDecoder := Some d0\<rparr>));
                    cl = \<lparr>rtpDec = r0, iFrameReceived = False, waitingForIframeLogged = False\<rparr>
                in
                if rtpH264Passthrough rc3 then
                  (let rc4 = called CallNewFormatProcessor rc3 in
                   case newFormatProcessorResult env of
                     Inl err \<Rightarrow> (Some err, rc4)
                   | Inr fp \<Rightarrow>
                      (let rc5 = called ClientSetup rc4 in
                       case setupResult env of
                         Some err \<Rightarrow> (Some err, rc5)
                       | None \<Rightarrow> (None, registerHandler (H264Passthrough cl fp) rc5)))
                else
                  (let rc5 = called ClientSetup rc3 in
                   case setupResult env of
                     Some err \<Rightarrow> (Some err, rc5)
                   | None \<Rightarrow> (None, registerHandler (H264Raw cl) rc5)))))"

definition initH265 ::
  "'x conn_env \<Rightarrow> 'x externals \<Rightarrow> session \<Rightarrow> 'x rtspCamera \<Rightarrow> error option \<times> 'x rtspCamera" where
  "initH265 env ext sess rc =
    (if rtpH264Passthrough rc then (Some ErrH265WithPassthrough, rc)
     else
      (case h265Format sess of
         None \<Rightarrow> (Some ErrH265TrackNotFound, rc)
       | Some f \<Rightarrow>
          let rc1 = called ClientSetup rc in
          (case setupResult env of
             Some err \<Rightarrow> (Some err, rc1)
           | None \<Rightarrow>
              let rc2 = called (CallCreateDecoder H265) rc1 in
              (case createDecoderResult env of
                 Inl err \<Rightarrow> (Some err, rc2)
               | Inr r0 \<Rightarrow>
                  let rc3 = called (CallNewRawDecoder H265) rc2 in
                  (case newRawDecoderResult env of
                     Inl err \<Rightarrow> (Some err, rc3\<lparr>rawDecoder := None\<rparr>)
                   | Inr d0 \<Rightarrow>
                      let rc4 = feedParam ext (PPS f) (feedParam ext (SPS f)
                                  (feedParam ext (VPS f) (rc3\<lparr>rawDecoder := Some d0\<rparr>)))
                      in (None, registerHandler (H265Raw r0) rc4))))))"

text \<open>
  \<open>reconnectClient\<close> from \<open>rc.client.Describe\<close> to its last line. The second component is
  the variable \<open>clientSuccessful\<close> that the deferred function reads.
\<close>
definition reconnectBody ::
  "'x conn_env \<Rightarrow> 'x externals \<Rightarrow> 'x rtspCamera \<Rightarrow> error option \<times> bool \<times> 'x rtspCamera" where
  "reconnectBody env ext rc =
    (let rc1 = called ClientDescribe rc in
     case describeResult env of
       Inl err \<Rightarrow> (Some err, False, rc1)
     | Inr sess \<Rightarrow>
        let rc2 = called CallGetStreamInfo rc1 in
        (case streamInfoResult env of
           Inl err \<Rightarrow> (Some err, False, rc2)
         | Inr codecInfo \<Rightarrow>
            (case (case codecInfo of
                     H264 \<Rightarrow> Inr (initH264 env ext sess rc2)
                   | H265 \<Rightarrow> Inr (initH265 env ext sess rc2)
                   | OtherCodec \<Rightarrow> Inl (ErrCodecNotSupported codecInfo)) of
               Inl err \<Rightarrow> (Some err, False, rc2)
             | Inr (Some err, rc3) \<Rightarrow> (Some err, False, rc3)
             | Inr (None, rc3) \<Rightarrow>
                let rc4 = called ClientPlay rc3 in
                (case playResult env of
                   Some err \<Rightarrow> (Some err, False, rc4)
                 | None \<Rightarrow>
                    (None, True,
                     rc4\<lparr>client := map_option (\<lambda>c. c\<lparr>playing := True\<rparr>) (client rc4)\<rparr>)))))"

text \<open>
  \<open>reconnectClient\<close>. The receiver is a pointer, \<open>None\<close> is nil. The deferred function is
  installed after \<open>rc.client.Start\<close> has succeeded, so it does not run when \<open>Start\<close> fails.
\<close>
definition reconnectClient ::
  "'x conn_env \<Rightarrow> 'x externals \<Rightarrow> 'x rtspCamera option \<Rightarrow> error option \<times> 'x rtspCamera option" where
  "reconnectClient env ext rcp =
    (case rcp of
       None \<Rightarrow> (Some ErrNilCamera, None)
     | Some rc \<Rightarrow>
        let rc1 = closeConnection rc;
            rc2 = called ClientStart
                    (rc1\<lparr>client := Some \<lparr>timeDec = newClientState env, onPacketRTP = None,
                                          playing = False\<rparr>\<rparr>)
        in (case startResult env of
              Some err \<Rightarrow> (Some err, Some rc2)
            | None \<Rightarrow>
               (case reconnectBody env ext rc2 of (err, clientSuccessful, rc3) \<Rightarrow>
                  (err, Some (if \<not> clientSuccessful then closeConnection rc3 else rc3)))))"

section \<open>Notions used to state the properties\<close>

text \<open>The calls recorded between two states of the camera.\<close>
definition new_events :: "'x rtspCamera \<Rightarrow> 'x rtspCamera \<Rightarrow> event list" where
  "new_events rc rc' = drop (length (trace rc)) (trace rc')"

text \<open>\<open>a\<close> occurs in the list before the first occurrence of \<open>b\<close>, if any.\<close>
definition precedes :: "event \<Rightarrow> event \<Rightarrow> event list \<Rightarrow> bool" where
  "precedes a b evs = (a \<in> set (takeWhile (\<lambda>e. e \<noteq> b) evs))"

fun isStoreFrame :: "event \<Rightarrow> bool" where
  "isStoreFrame (StoreFrame img) = True"
| "isStoreFrame e = False"

fun isPublish :: "event \<Rightarrow> bool" where
  "isPublish (CallPublish ident u) = True"
| "isPublish e = False"

fun isCreation :: "event \<Rightarrow> bool" where
  "isCreation (CallCreateDecoder c) = True"
| "isCreation (CallNewRawDecoder c) = True"
| "isCreation CallNewFormatProcessor = True"
| "isCreation e = False"

text \<open>The calls made by the decode path, and the calls made by the passthrough path.\<close>
fun isDecodeEvent :: "event \<Rightarrow> bool" where
  "isDecodeEvent (CallRtpDecode pkt) = True"
| "isDecodeEvent (CallRawDecode n) = True"
| "isDecodeEvent (StoreFrame img) = True"
| "isDecodeEvent e = False"

fun isPassthroughEvent :: "event \<Rightarrow> bool" where
  "isPassthroughEvent (CallPacketPTS pkt) = True"
| "isPassthroughEvent (CallProcessRTPPacket pkt pts) = True"
| "isPassthroughEvent (CallPublish ident u) = True"
| "isPassthroughEvent e = False"

text \<open>The callback registered on the camera's client, if there is a client and a callback.\<close>
definition registeredHandler :: "'x rtspCamera \<Rightarrow> 'x handler option" where
  "registeredHandler rc = (case client rc of None \<Rightarrow> None | Some c \<Rightarrow> onPacketRTP c)"

text \<open>
  The results of the depacketizer on a sequence of packets, and the images the raw
  decoder yields on the sub-units of one access unit up to its first error: both follow
  the library's state through the calls and mention no state of the camera.
\<close>
fun depkt_results :: "'x externals \<Rightarrow> 'x \<Rightarrow> rtp_packet list \<Rightarrow> (depkt_error + au) list" where
  "depkt_results ext r [] = []"
| "depkt_results ext r (pkt # pkts) =
    (case rtpDecode ext r pkt of (res, r') \<Rightarrow> res # depkt_results ext r' pkts)"

fun decoded_images :: "'x externals \<Rightarrow> 'x \<Rightarrow> au \<Rightarrow> image list" where
  "decoded_images ext d [] = []"
| "decoded_images ext d (n # ns) =
    (case rawDecode ext d n of
       (Inl err, d') \<Rightarrow> []
     | (Inr None, d') \<Rightarrow> decoded_images ext d' ns
     | (Inr (Some img), d') \<Rightarrow> img # decoded_images ext d' ns)"

fun nonKeyframe :: "'x externals \<Rightarrow> depkt_error + au \<Rightarrow> bool" where
  "nonKeyframe ext (Inl err) = True"
| "nonKeyframe ext (Inr a) = (\<not> IDRPresent ext a)"

section \<open>Sample values\<close>

text \<open>
  One concrete choice of library behaviour, over states of type \<open>nat\<close> that count the
  calls, used to evaluate the model on concrete inputs. The depacketizer turns every
  packet with a payload into an access unit of one sub-unit; \<open>IDRPresent\<close> is the test of
  the H264 library (some sub-unit has type 5 in the low five bits of its first byte); the
  raw decoder yields a picture for slices (types 1 and 5), nothing for other sub-units and
  an error for an empty one; the encoder yields one packet per sub-unit, with timestamp 90.
\<close>
definition sample_ext :: "nat externals" where
  "sample_ext =
    \<lparr>rtpDecode = (\<lambda>r pkt. (if Payload pkt = [] then Inl ErrMorePacketsNeeded
                            else Inr [Payload pkt], Suc r)),
     rawDecode = (\<lambda>d n. (case n of
                             [] \<Rightarrow> Inl (ErrLibrary 1)
                           | b # bs \<Rightarrow> if b AND 31 = 5 \<or> b AND 31 = 1 then Inr (Some (Image d))
                                       else Inr None,
                          Suc d)),
     IDRPresent = list_ex (\<lambda>n. case n of [] \<Rightarrow> False | b # bs \<Rightarrow> b AND 31 = 5),
     packetPTS = (\<lambda>t pkt. (Some (uint (Timestamp pkt)), Suc t)),
     processRTPPacket = (\<lambda>fp pkt pts.
        (Inr (H264Unit \<lparr>AU = Some [Payload pkt], PTS = pts, RTPPackets = [pkt]\<rparr>), Suc fp)),
     encode = (\<lambda>e a. (Inr (map (\<lambda>n. \<lparr>Timestamp = 90, Payload = n\<rparr>) a), Suc e))\<rparr>"

definition sample_closure :: "nat sub_closure" where
  "sample_closure = \<lparr>firstReceived = False, lastPTS = 0, encoder = 0\<rparr>"

text \<open>A unit whose first transport packet has the largest timestamp a \<open>uint32\<close> holds.\<close>
definition sample_unit :: "au option \<Rightarrow> duration \<Rightarrow> h264_unit" where
  "sample_unit a pts =
    \<lparr>AU = a, PTS = pts, RTPPackets = [\<lparr>Timestamp = 4294967295, Payload = [101, 1]\<rparr>]\<rparr>"

definition sample_camera :: "nat rtspCamera" where
  "sample_camera =
    \<lparr>client = Some \<lparr>timeDec = 0, onPacketRTP = None, playing = True\<rparr>,
     rawDecoder = Some 0,
     latestFrame = None,
     rtpH264Passthrough = True,
     subAndCBByID = [(1, \<lparr>cb = sample_closure, sub = 1\<rparr>), (2, \<lparr>cb = sample_closure, sub = 2\<rparr>)],
     trace = []\<rparr>"

text \<open>The closure of a subscriber after it has accepted a unit with timestamp 10.\<close>
definition accepted_closure :: "nat sub_closure" where
  "accepted_closure = \<lparr>firstReceived = True, lastPTS = 10, encoder = 1\<rparr>"

text \<open>The closure variables as \<open>initH264\<close> creates them, and packets with a given payload.\<close>
definition fresh_closure :: "nat h264_closure" where
  "fresh_closure = \<lparr>rtpDec = 0, iFrameReceived = False, waitingForIframeLogged = False\<rparr>"

definition sample_packet :: "nat \<Rightarrow> byte list \<Rightarrow> rtp_packet" where
  "sample_packet t bs = \<lparr>Timestamp = of_nat t, Payload = bs\<rparr>"

text \<open>
  The same with the sub-unit types of H265 (bits 1 to 6 of the first byte): the raw decoder
  yields a picture for slices of types 0, 1, 19, 20 and 21, and the keyframe test holds
  for the random access types 16 to 23.
\<close>
definition sample_ext265 :: "nat externals" where
  "sample_ext265 = sample_ext
    \<lparr>rawDecode := (\<lambda>d n. (case n of
                             [] \<Rightarrow> Inl (ErrLibrary 1)
                           | b # bs \<Rightarrow> if drop_bit 1 b AND 63 \<in> set [0, 1, 19, 20, 21]
                                       then Inr (Some (Image d)) else Inr None,
                          Suc d)),
      IDRPresent := list_ex (\<lambda>n. case n of [] \<Rightarrow> False
                                  | b # bs \<Rightarrow> drop_bit 1 b AND 63 \<in> set [16, 17, 18, 19, 20, 21, 22, 23])\<rparr>"

text \<open>The same library behaviour with a format processor that fails on every packet.\<close>
definition sample_ext_fp_fails :: "nat externals" where
  "sample_ext_fp_fails = sample_ext\<lparr>processRTPPacket := (\<lambda>fp pkt pts. (Inl (ErrLibrary 2), Suc fp))\<rparr>"

text \<open>
  The camera as \<open>newRTSPCamera\<close> builds it before it connects, an SDP with an H265 track
  only, and a connection attempt in which every step succeeds or in which \<open>Start\<close> fails.
\<close>
definition new_camera :: "bool \<Rightarrow> nat rtspCamera" where
  "new_camera pt =
    \<lparr>client = None, rawDecoder = None, latestFrame = None, rtpH264Passthrough = pt,
     subAndCBByID = [], trace = []\<rparr>"

definition sample_session265 :: session where
  "sample_session265 =
    \<lparr>h264Format = None,
     h265Format = Some \<lparr>VPS = Some [64, 1], SPS = Some [66, 1], PPS = Some [68, 1]\<rparr>\<rparr>"

definition sample_env :: "nat conn_env" where
  "sample_env =
    \<lparr>newClientState = 0, startResult = None, describeResult = Inr sample_session265,
     streamInfoResult = Inr H265, createDecoderResult = Inr 0, newRawDecoderResult = Inr 0,
     newFormatProcessorResult = Inr 0, setupResult = None, playResult = None\<rparr>"

definition sample_env_start_fails :: "nat conn_env" where
  "sample_env_start_fails = sample_env\<lparr>startResult := Some (ErrLibrary 3)\<rparr>"

section \<open>Properties of the subscription registry\<close>

text \<open>
  C9. \<open>Unsubscribe\<close> of an id that is not in the registry returns the not-found error and
  leaves the camera, registry included, as it was. After any \<open>Unsubscribe\<close> of an id, a
  second \<open>Unsubscribe\<close> of the same id returns the not-found error.
\<close>
theorem Unsubscribe_unknown_id:
  "(map_of (subAndCBByID rc) ident = None \<longrightarrow> Unsubscribe rc ident = (Some ErrIdNotFound, rc)) \<and>
   fst (Unsubscribe (snd (Unsubscribe rc ident)) ident) = Some ErrIdNotFound"
  by (simp add: Unsubscribe_def AList.delete_conv' split: option.splits)

theorem Unsubscribe_unknown_id_witness:
  "map_of (subAndCBByID sample_camera) 7 = None \<and>
   Unsubscribe sample_camera 7 = (Some ErrIdNotFound, sample_camera) \<and>
   length (subAndCBByID (snd (Unsubscribe sample_camera 7))) = 2 \<and>
   fst (Unsubscribe sample_camera 1) = None \<and>
   fst (Unsubscribe (snd (Unsubscribe sample_camera 1)) 1) = Some ErrIdNotFound"
  using Unsubscribe_unknown_id [of sample_camera 7] Unsubscribe_unknown_id [of sample_camera 1]
  by (simp add: sample_camera_def Unsubscribe_def)

lemma SubscribeRTP_then_Unsubscribe:
  assumes "SubscribeRTP (Inr ident) (Inr e0) rc = (res, rc1)"
      and "rtpH264Passthrough rc"
  shows "res = Inr ident \<and> fst (Unsubscribe rc1 ident) = None \<and>
         map_of (subAndCBByID (snd (Unsubscribe rc1 ident))) ident = None"
  using assms
  by (auto simp add: SubscribeRTP_def Unsubscribe_def update_conv' AList.delete_conv')

section \<open>Properties of the passthrough encoding function\<close>

text \<open>
  C8, as amended. A unit whose access unit is nil, which is what the function tests with
  \<open>tunit.AU == nil\<close>, is a no-op whatever its presentation timestamp: the function returns
  nil, the encoder is not called, \<open>packetsCB\<close> is not called, and the closure's variables
  (\<open>lastPTS\<close> among them) keep their values.
\<close>
theorem unitSubscriberFunc_no_payload:
  assumes "AU tunit = None"
  shows "unitSubscriberFunc ext packetsCB st (H264Unit tunit) = (Return None, st, None)"
  using assms by (simp add: unitSubscriberFunc_def)

theorem unitSubscriberFunc_no_payload_witness:
  "AU (sample_unit None 5) = None \<and>
   unitSubscriberFunc sample_ext (\<lambda>pkts. None)
     \<lparr>firstReceived = True, lastPTS = 10, encoder = 1\<rparr> (H264Unit (sample_unit None 5)) =
   (Return None, \<lparr>firstReceived = True, lastPTS = 10, encoder = 1\<rparr>, None)"
  using unitSubscriberFunc_no_payload
    [of "sample_unit None 5" sample_ext "\<lambda>pkts. None"
        "\<lparr>firstReceived = True, lastPTS = 10, encoder = 1\<rparr>"]
  by (simp add: sample_unit_def)

text \<open>
  C8 as stated fails for units whose access unit is not nil: after a unit with timestamp
  10 has been accepted, a unit with an empty, non-nil access unit and timestamp 5 is
  rejected with the ordering error, and a unit made of parameter sets only (sub-units of
  types 7 and 8) is encoded and its packets are handed to \<open>packetsCB\<close>.
\<close>
theorem unitSubscriberFunc_no_payload_counterexample:
  "firstReceived accepted_closure \<and>
   PTS (sample_unit (Some []) 5) < lastPTS accepted_closure \<and>
   unitSubscriberFunc sample_ext (\<lambda>pkts. None) accepted_closure (H264Unit (sample_unit (Some []) 5)) =
     (Return (Some ErrBFrames), accepted_closure, None) \<and>
   unitSubscriberFunc sample_ext (\<lambda>pkts. None) accepted_closure
     (H264Unit (sample_unit (Some [[103, 1], [104, 2]]) 10)) =
     (Return None, \<lparr>firstReceived = True, lastPTS = 10, encoder = 2\<rparr>,
      Some [\<lparr>Timestamp = 89, Payload = [103, 1]\<rparr>, \<lparr>Timestamp = 89, Payload = [104, 2]\<rparr>])"
  by (simp add: sample_unit_def accepted_closure_def sample_ext_def unitSubscriberFunc_def
        encodeAndDeliver_def)



lemma encodeAndDeliver_state:
  "fst (snd (encodeAndDeliver ext packetsCB st tunit a)) =
     st\<lparr>lastPTS := PTS tunit, encoder := snd (encode ext (encoder st) a)\<rparr>"
  by (simp add: encodeAndDeliver_def Let_def split: prod.splits sum.splits list.splits)

text \<open>
  C5, as amended. Let the function accept a unit \<open>prev\<close> that has an access unit, leaving
  the closure in state \<open>st1\<close>. Then \<open>lastPTS\<close> is the timestamp of \<open>prev\<close>; a unit \<open>bad\<close> that
  has an access unit and a lower timestamp is rejected with the ordering error, without a
  call of the encoder or of \<open>packetsCB\<close>, and leaves every variable of the closure,
  \<open>lastPTS\<close> included, as it was; a unit \<open>nxt\<close> with an access unit and a timestamp at or
  above that of \<open>prev\<close>, fed after the rejected one, goes through encoding and delivery like
  any accepted unit and becomes the new \<open>lastPTS\<close>.
\<close>
theorem unitSubscriberFunc_ordering:
  assumes "AU prev = Some a0"
      and "\<not> firstReceived st0 \<or> lastPTS st0 \<le> PTS prev"
      and "st1 = fst (snd (unitSubscriberFunc ext packetsCB st0 (H264Unit prev)))"
      and "AU bad = Some a1"
      and "PTS bad < PTS prev"
      and "st2 = fst (snd (unitSubscriberFunc ext packetsCB st1 (H264Unit bad)))"
      and "AU nxt = Some a2"
      and "PTS prev \<le> PTS nxt"
  shows "firstReceived st1 \<and> lastPTS st1 = PTS prev \<and>
         unitSubscriberFunc ext packetsCB st1 (H264Unit bad) = (Return (Some ErrBFrames), st1, None) \<and>
         st2 = st1 \<and>
         unitSubscriberFunc ext packetsCB st2 (H264Unit nxt) = encodeAndDeliver ext packetsCB st1 nxt a2 \<and>
         fst (snd (unitSubscriberFunc ext packetsCB st2 (H264Unit nxt))) =
           st1\<lparr>lastPTS := PTS nxt, encoder := snd (encode ext (encoder st1) a2)\<rparr>"
proof -
  have s1: "st1 = (st0\<lparr>firstReceived := True\<rparr>)
                      \<lparr>lastPTS := PTS prev, encoder := snd (encode ext (encoder st0) a0)\<rparr>"
    using assms(1,2,3) by (auto simp add: unitSubscriberFunc_def encodeAndDeliver_state)
  have fr: "firstReceived st1" and lp: "lastPTS st1 = PTS prev"
    by (simp_all add: s1)
  have rej: "unitSubscriberFunc ext packetsCB st1 (H264Unit bad) =
               (Return (Some ErrBFrames), st1, None)"
    using fr lp assms(4,5) by (simp add: unitSubscriberFunc_def)
  have same: "st2 = st1"
    using rej assms(6) by simp
  have acc: "unitSubscriberFunc ext packetsCB st1 (H264Unit nxt) =
               encodeAndDeliver ext packetsCB st1 nxt a2"
    using fr lp assms(7,8) by (simp add: unitSubscriberFunc_def)
  show ?thesis
    using fr lp rej same acc by (simp add: encodeAndDeliver_state)
qed

theorem unitSubscriberFunc_ordering_witness:
  "AU (sample_unit (Some [[101, 1]]) 10) = Some [[101, 1]] \<and>
   \<not> firstReceived sample_closure \<and>
   fst (snd (unitSubscriberFunc sample_ext (\<lambda>pkts. None) sample_closure
              (H264Unit (sample_unit (Some [[101, 1]]) 10)))) = accepted_closure \<and>
   PTS (sample_unit (Some [[65, 1]]) 5) < PTS (sample_unit (Some [[101, 1]]) 10) \<and>
   unitSubscriberFunc sample_ext (\<lambda>pkts. None) accepted_closure
     (H264Unit (sample_unit (Some [[65, 1]]) 5)) =
     (Return (Some ErrBFrames), accepted_closure, None) \<and>
   unitSubscriberFunc sample_ext (\<lambda>pkts. None) accepted_closure
     (H264Unit (sample_unit (Some [[65, 2]]) 10)) =
     (Return None, \<lparr>firstReceived = True, lastPTS = 10, encoder = 2\<rparr>,
      Some [\<lparr>Timestamp = 89, Payload = [65, 2]\<rparr>])"
  using unitSubscriberFunc_ordering
    [of "sample_unit (Some [[101, 1]]) 10" "[[101, 1]]" sample_closure accepted_closure
        sample_ext "\<lambda>pkts. None" "sample_unit (Some [[65, 1]]) 5" "[[65, 1]]" accepted_closure
        "sample_unit (Some [[65, 2]]) 10" "[[65, 2]]"]
  by (simp add: sample_unit_def sample_closure_def sample_ext_def accepted_closure_def
        unitSubscriberFunc_def encodeAndDeliver_def)

text \<open>
  C5 as stated fails for a unit without an access unit: after a unit with timestamp 10 has
  been accepted, a unit with a nil access unit and timestamp 5 returns nil, not the
  ordering error.
\<close>
theorem unitSubscriberFunc_ordering_counterexample:
  "firstReceived accepted_closure \<and>
   AU (sample_unit None 5) = None \<and>
   PTS (sample_unit None 5) < lastPTS accepted_closure \<and>
   unitSubscriberFunc sample_ext (\<lambda>pkts. None) accepted_closure (H264Unit (sample_unit None 5)) =
     (Return None, accepted_closure, None) \<and>
   fst (unitSubscriberFunc sample_ext (\<lambda>pkts. None) accepted_closure
          (H264Unit (sample_unit None 5))) \<noteq> Return (Some ErrBFrames)"
  by (simp add: sample_unit_def accepted_closure_def unitSubscriberFunc_def)

section \<open>Properties of the decode path\<close>

text \<open>
  The loop over the sub-units never panics while the camera has a raw decoder; it touches
  the raw decoder, \<open>latestFrame\<close> and the trace only, and it leaves in \<open>latestFrame\<close> the
  last picture the decoder yielded before its first error, if it yielded one.
\<close>
lemma decode_nalus_total:
  assumes "rawDecoder rc = Some d"
  shows "\<exists>rc'. decode_nalus ext a rc = Some rc' \<and> rawDecoder rc' \<noteq> None \<and>
           client rc' = client rc \<and> subAndCBByID rc' = subAndCBByID rc \<and>
           rtpH264Passthrough rc' = rtpH264Passthrough rc \<and>
           (\<exists>evs. trace rc' = trace rc @ evs \<and> list_all isDecodeEvent evs) \<and>
           latestFrame rc' = (if decoded_images ext d a = [] then latestFrame rc
                              else Some (last (decoded_images ext d a)))"
  using assms
proof (induction a arbitrary: rc d)
  case Nil
  then show ?case by simp
next
  case (Cons n ns)
  obtain res d' where rd: "rawDecode ext d n = (res, d')"
    by (cases "rawDecode ext d n")
  let ?rc1 = "called (CallRawDecode n) (rc\<lparr>rawDecoder := Some d'\<rparr>)"
  show ?case
  proof (cases res)
    case (Inl err)
    then show ?thesis using Cons.prems rd by (simp add: called_def)
  next
    case (Inr io)
    show ?thesis
    proof (cases io)
      case None
      have "rawDecoder ?rc1 = Some d'" by (simp add: called_def)
      from Cons.IH [OF this] show ?thesis
        using Cons.prems rd Inr None by (auto simp add: called_def)
    next
      case (Some img)
      let ?rc2 = "called (StoreFrame img) (?rc1\<lparr>latestFrame := Some img\<rparr>)"
      have "rawDecoder ?rc2 = Some d'" by (simp add: called_def)
      from Cons.IH [OF this] show ?thesis
        using Cons.prems rd Inr Some by (auto simp add: called_def)
    qed
  qed
qed


lemma storeImage_total:
  assumes "rawDecoder rc = Some d"
  shows "\<exists>cl' rc' evs. storeImage ext (cl, rc) pkt = Some (cl', rc') \<and> rawDecoder rc' \<noteq> None \<and>
           client rc' = client rc \<and> subAndCBByID rc' = subAndCBByID rc \<and>
           trace rc' = trace rc @ CallRtpDecode pkt # evs \<and> list_all isDecodeEvent evs"
proof -
  obtain res r' where rd: "rtpDecode ext (rtpDec cl) pkt = (res, r')"
    by (cases "rtpDecode ext (rtpDec cl) pkt")
  let ?rc1 = "called (CallRtpDecode pkt) rc"
  have d1: "rawDecoder ?rc1 = Some d" using assms by (simp add: called_def)
  show ?thesis
  proof (cases res)
    case (Inl err)
    then show ?thesis using rd assms by (simp add: storeImage_def called_def)
  next
    case (Inr a)
    from decode_nalus_total [OF d1, of ext a]
    obtain rc' evs where dn: "decode_nalus ext a ?rc1 = Some rc'" "rawDecoder rc' \<noteq> None"
      "client rc' = client ?rc1" "subAndCBByID rc' = subAndCBByID ?rc1"
      "trace rc' = trace ?rc1 @ evs" "list_all isDecodeEvent evs"
      by blast
    show ?thesis using rd Inr dn assms
      by (cases "iFrameReceived cl"; cases "IDRPresent ext a")
         (auto simp add: storeImage_def called_def)
  qed
qed

lemma storeImage_gate:
  assumes "storeImage ext (cl, rc) pkt = Some (cl', rc')"
  shows "(iFrameReceived cl \<longrightarrow> iFrameReceived cl') \<and>
         (\<not> iFrameReceived cl' \<longrightarrow> rc' = called (CallRtpDecode pkt) rc)"
  using assms
  by (auto simp add: storeImage_def Let_def split: prod.splits sum.splits if_splits)

lemma storeImage_nonKeyframe:
  assumes "\<not> iFrameReceived cl"
      and "nonKeyframe ext (fst (rtpDecode ext (rtpDec cl) pkt))"
  shows "\<exists>cl'. storeImage ext (cl, rc) pkt = Some (cl', called (CallRtpDecode pkt) rc) \<and>
           \<not> iFrameReceived cl' \<and> rtpDec cl' = snd (rtpDecode ext (rtpDec cl) pkt)"
proof -
  obtain res r' where rd: "rtpDecode ext (rtpDec cl) pkt = (res, r')"
    by (cases "rtpDecode ext (rtpDec cl) pkt")
  show ?thesis using assms rd
    by (cases res) (simp_all add: storeImage_def)
qed

lemma storeImage_keyframe:
  assumes "\<not> iFrameReceived cl"
      and "rawDecoder rc = Some d"
      and "rtpDecode ext (rtpDec cl) pkt = (Inr a, r')"
      and "IDRPresent ext a"
  shows "\<exists>cl' rc'. storeImage ext (cl, rc) pkt = Some (cl', rc') \<and> iFrameReceived cl' \<and>
           latestFrame rc' = (if decoded_images ext d a = [] then latestFrame rc
                              else Some (last (decoded_images ext d a)))"
proof -
  let ?rc1 = "called (CallRtpDecode pkt) rc"
  have d1: "rawDecoder ?rc1 = Some d" using assms(2) by (simp add: called_def)
  from decode_nalus_total [OF d1, of ext a]
  obtain rc' where dn: "decode_nalus ext a ?rc1 = Some rc'"
    "latestFrame rc' = (if decoded_images ext d a = [] then latestFrame ?rc1
                        else Some (last (decoded_images ext d a)))"
    by blast
  show ?thesis using assms dn
    by (simp add: storeImage_def called_def)
qed

lemma depkt_results_append:
  "depkt_results ext r (xs @ ys) =
     depkt_results ext r xs @ depkt_results ext (fold (\<lambda>p r. snd (rtpDecode ext r p)) xs r) ys"
  by (induction xs arbitrary: r) (simp_all split: prod.splits)

lemma depkt_results_take:
  "depkt_results ext r (take n xs) = take n (depkt_results ext r xs)"
proof (induction xs arbitrary: r n)
  case Nil
  then show ?case by simp
next
  case (Cons x xs)
  then show ?case by (cases n) (simp_all split: prod.splits)
qed

lemma length_depkt_results: "length (depkt_results ext r xs) = length xs"
  by (induction xs arbitrary: r) (simp_all split: prod.splits)

lemma run_storeImage_append:
  "run_storeImage ext s (xs @ ys) =
     (case run_storeImage ext s xs of None \<Rightarrow> None | Some s' \<Rightarrow> run_storeImage ext s' ys)"
  by (induction xs arbitrary: s) (simp_all split: option.splits)

lemma run_storeImage_nonKeyframes:
  assumes "\<not> iFrameReceived cl"
      and "list_all (nonKeyframe ext) (depkt_results ext (rtpDec cl) pkts)"
  shows "\<exists>cl1. run_storeImage ext (cl, rc) pkts =
                 Some (cl1, rc\<lparr>trace := trace rc @ map CallRtpDecode pkts\<rparr>) \<and>
           \<not> iFrameReceived cl1 \<and>
           rtpDec cl1 = fold (\<lambda>p r. snd (rtpDecode ext r p)) pkts (rtpDec cl)"
  using assms
proof (induction pkts arbitrary: cl rc)
  case Nil
  then show ?case by simp
next
  case (Cons p ps)
  from Cons.prems(2) have nk: "nonKeyframe ext (fst (rtpDecode ext (rtpDec cl) p))"
    and rest: "list_all (nonKeyframe ext) (depkt_results ext (snd (rtpDecode ext (rtpDec cl) p)) ps)"
    by (simp_all split: prod.splits)
  from storeImage_nonKeyframe [OF Cons.prems(1) nk, of rc]
  obtain cl' where st: "storeImage ext (cl, rc) p = Some (cl', called (CallRtpDecode p) rc)"
    "\<not> iFrameReceived cl'" "rtpDec cl' = snd (rtpDecode ext (rtpDec cl) p)"
    by blast
  from rest st(3) have rest': "list_all (nonKeyframe ext) (depkt_results ext (rtpDec cl') ps)"
    by simp
  from Cons.IH [OF st(2) rest', of "called (CallRtpDecode p) rc"]
  show ?case using st by (auto simp add: called_def)
qed

text \<open>
  C6. Take a pipeline whose gate \<open>iFrameReceived\<close> is false, as \<open>initH264\<close> creates it, and
  packets \<open>pkts\<close> whose depacketization yields no access unit with an IDR sub-unit
  (non-keyframe units, and packets that complete no unit), followed by a packet \<open>key\<close> that
  completes an access unit \<open>a\<close> with an IDR sub-unit. Then after every prefix of \<open>pkts\<close> the
  gate is still false, \<open>latestFrame\<close> is what it was before (empty, if it was empty) and no
  picture has been stored; and after \<open>key\<close> the gate is true and \<open>latestFrame\<close> holds the
  last picture the raw decoder yielded on the sub-units of \<open>a\<close>, given that it yielded one
  before its first error.
\<close>
theorem storeImage_waits_for_keyframe:
  assumes "\<not> iFrameReceived cl"
      and "rawDecoder rc = Some d"
      and "depkt_results ext (rtpDec cl) (pkts @ [key]) = results @ [Inr a]"
      and "list_all (nonKeyframe ext) results"
      and "IDRPresent ext a"
      and "decoded_images ext d a \<noteq> []"
  shows "(\<forall>n\<le>length pkts. \<exists>cl1 rc1. run_storeImage ext (cl, rc) (take n pkts) = Some (cl1, rc1) \<and>
            \<not> iFrameReceived cl1 \<and> latestFrame rc1 = latestFrame rc \<and>
            \<not> list_ex isStoreFrame (new_events rc rc1)) \<and>
         (\<exists>cl2 rc2. run_storeImage ext (cl, rc) (pkts @ [key]) = Some (cl2, rc2) \<and>
            iFrameReceived cl2 \<and> latestFrame rc2 = Some (last (decoded_images ext d a)))"
proof -
  let ?r1 = "fold (\<lambda>p r. snd (rtpDecode ext r p)) pkts (rtpDec cl)"
  have len: "length results = length pkts"
    using arg_cong [OF assms(3), of length] by (simp add: length_depkt_results)
  have split: "depkt_results ext (rtpDec cl) pkts = results"
    and lastr: "depkt_results ext ?r1 [key] = [Inr a]"
    using assms(3) len by (simp_all add: depkt_results_append length_depkt_results)
  have keyres: "rtpDecode ext ?r1 key = (Inr a, snd (rtpDecode ext ?r1 key))"
    using lastr by (simp split: prod.splits)
  have part1: "\<exists>cl1 rc1. run_storeImage ext (cl, rc) (take n pkts) = Some (cl1, rc1) \<and>
            \<not> iFrameReceived cl1 \<and> latestFrame rc1 = latestFrame rc \<and>
            \<not> list_ex isStoreFrame (new_events rc rc1)" for n
  proof -
    have "list_all (nonKeyframe ext) (depkt_results ext (rtpDec cl) (take n pkts))"
      using assms(4) split by (auto simp add: depkt_results_take list_all_iff dest: in_set_takeD)
    from run_storeImage_nonKeyframes [OF assms(1) this, of rc]
    show ?thesis by (auto simp add: new_events_def list_ex_iff)
  qed
  have "list_all (nonKeyframe ext) (depkt_results ext (rtpDec cl) pkts)"
    using assms(4) split by simp
  from run_storeImage_nonKeyframes [OF assms(1) this, of rc]
  obtain cl1 where r1: "run_storeImage ext (cl, rc) pkts =
       Some (cl1, rc\<lparr>trace := trace rc @ map CallRtpDecode pkts\<rparr>)"
    "\<not> iFrameReceived cl1" "rtpDec cl1 = ?r1"
    by blast
  let ?rc1 = "rc\<lparr>trace := trace rc @ map CallRtpDecode pkts\<rparr>"
  have d1: "rawDecoder ?rc1 = Some d" using assms(2) by simp
  have k1: "rtpDecode ext (rtpDec cl1) key = (Inr a, snd (rtpDecode ext ?r1 key))"
    using keyres r1(3) by simp
  from storeImage_keyframe [OF r1(2) d1 k1 assms(5)]
  obtain cl2 rc2 where s2: "storeImage ext (cl1, ?rc1) key = Some (cl2, rc2)" "iFrameReceived cl2"
    "latestFrame rc2 = Some (last (decoded_images ext d a))"
    using assms(6) by auto
  have "run_storeImage ext (cl, rc) (pkts @ [key]) = Some (cl2, rc2)"
    using r1(1) s2(1) by (simp add: run_storeImage_append)
  then show ?thesis using part1 s2 by blast
qed

theorem storeImage_waits_for_keyframe_witness:
  "\<not> iFrameReceived fresh_closure \<and>
   rawDecoder sample_camera = Some 0 \<and>
   latestFrame sample_camera = None \<and>
   depkt_results sample_ext (rtpDec fresh_closure)
     ([sample_packet 0 [65, 1], sample_packet 1 [], sample_packet 2 [65, 2]] @ [sample_packet 3 [101, 1]]) =
     [Inr [[65, 1]], Inl ErrMorePacketsNeeded, Inr [[65, 2]]] @ [Inr [[101, 1]]] \<and>
   IDRPresent sample_ext [[101, 1]] \<and>
   decoded_images sample_ext 0 [[101, 1]] = [Image 0] \<and>
   map_option (\<lambda>s. latestFrame (snd s))
     (run_storeImage sample_ext (fresh_closure, sample_camera)
        [sample_packet 0 [65, 1], sample_packet 1 [], sample_packet 2 [65, 2]]) = Some None \<and>
   map_option (\<lambda>s. latestFrame (snd s))
     (run_storeImage sample_ext (fresh_closure, sample_camera)
        ([sample_packet 0 [65, 1], sample_packet 1 [], sample_packet 2 [65, 2]] @ [sample_packet 3 [101, 1]])) =
     Some (Some (Image 0))"
  using storeImage_waits_for_keyframe [of fresh_closure sample_camera 0 sample_ext
        "[sample_packet 0 [65, 1], sample_packet 1 [], sample_packet 2 [65, 2]]"
        "sample_packet 3 [101, 1]"
        "[Inr [[65, 1]], Inl ErrMorePacketsNeeded, Inr [[65, 2]]]" "[[101, 1]]"]
  by (simp add: fresh_closure_def sample_camera_def sample_ext_def sample_packet_def
        storeImage_def called_def)

text \<open>
  C1. On the H264 path the property holds (\<open>storeImage_gate\<close>: a call of \<open>storeImage\<close> that
  leaves the gate false has stored nothing, and the gate never closes again). The
  H265 callback has no gate: on a pipeline that has seen no packet, one packet that
  completes an access unit of a single trailing slice (type 1, not a random access
  sub-unit) puts a picture into the empty \<open>latestFrame\<close>, where \<open>storeImage\<close> under the same
  library behaviour stores nothing.
\<close>
theorem onPacketRTP_h265_stores_without_keyframe:
  "\<not> IDRPresent sample_ext265 [[2, 1]] \<and>
   latestFrame sample_camera = None \<and>
   map_option (\<lambda>s. latestFrame (snd s))
     (onPacketRTP_h265 sample_ext265 (0, sample_camera) (sample_packet 0 [2, 1])) =
     Some (Some (Image 0)) \<and>
   map_option (\<lambda>s. latestFrame (snd s))
     (storeImage sample_ext265 (fresh_closure, sample_camera) (sample_packet 0 [2, 1])) = Some None"
  by (simp add: sample_ext265_def sample_ext_def sample_camera_def fresh_closure_def
        sample_packet_def onPacketRTP_h265_def storeImage_def called_def)

section \<open>Properties of the passthrough callback\<close>

lemma publishToWebRTC_total:
  assumes "client rc = Some c"
  shows "\<exists>fp' rc1 evs. publishToWebRTC ext (fp, rc) pkt = Some (fp', rc1) \<and>
           rawDecoder rc1 = rawDecoder rc \<and> latestFrame rc1 = latestFrame rc \<and>
           subAndCBByID rc1 = subAndCBByID rc \<and>
           trace rc1 = trace rc @ CallPacketPTS pkt # evs \<and> list_all isPassthroughEvent evs"
  using assms
  by (auto simp add: publishToWebRTC_def called_def Let_def list_all_iff
           split: prod.splits option.splits sum.splits)

lemma publishToWebRTC_publishes:
  assumes "client rc = Some c"
      and "packetPTS ext (timeDec c) pkt = (Some pts, t')"
      and "processRTPPacket ext fp pkt pts = (Inr u, fp')"
  shows "\<exists>rc1. publishToWebRTC ext (fp, rc) pkt = Some (fp', rc1) \<and>
           rawDecoder rc1 = rawDecoder rc \<and> latestFrame rc1 = latestFrame rc \<and>
           subAndCBByID rc1 = subAndCBByID rc \<and>
           trace rc1 = trace rc @ [CallPacketPTS pkt, CallProcessRTPPacket pkt pts] @
                         map (\<lambda>(ident, s). CallPublish ident u) (subAndCBByID rc)"
  using assms
  by (auto simp add: publishToWebRTC_def called_def Let_def)

lemma filter_isPublish_decode:
  "list_all isDecodeEvent evs \<Longrightarrow> filter isPublish evs = []"
proof (induction evs)
  case Nil
  then show ?case by simp
next
  case (Cons e evs)
  then show ?case by (cases e) simp_all
qed

lemma filter_isPublish_publishes:
  "filter isPublish (map (\<lambda>(ident, s). CallPublish ident u) subs) =
     map (\<lambda>(ident, s). CallPublish ident u) subs"
  by (induction subs) auto

text \<open>
  C2, as amended. While the camera has a client and a raw decoder, the callback of a
  passthrough session returns, and it hands every packet to the passthrough path first
  (\<open>PacketPTS\<close>, the first call of \<open>publishToWebRTC\<close>) and to the decode path second
  (\<open>rtpDec.Decode\<close>, the first call of \<open>storeImage\<close>); the decode call is made whatever the
  passthrough path did with the packet.
\<close>
theorem onPacketRTP_passthrough_order:
  assumes "client rc = Some c"
      and "rawDecoder rc = Some d"
  shows "\<exists>cl' fp' rc'. onPacketRTP_passthrough ext (cl, fp, rc) pkt = Some (cl', fp', rc') \<and>
           precedes (CallPacketPTS pkt) (CallRtpDecode pkt) (new_events rc rc') \<and>
           \<not> precedes (CallRtpDecode pkt) (CallPacketPTS pkt) (new_events rc rc') \<and>
           CallRtpDecode pkt \<in> set (new_events rc rc')"
proof -
  from publishToWebRTC_total [OF assms(1), of ext fp pkt]
  obtain fp' rc1 evs1 where p: "publishToWebRTC ext (fp, rc) pkt = Some (fp', rc1)"
    "rawDecoder rc1 = rawDecoder rc" "trace rc1 = trace rc @ CallPacketPTS pkt # evs1"
    by blast
  have "rawDecoder rc1 = Some d" using p(2) assms(2) by simp
  from storeImage_total [OF this, of ext cl pkt]
  obtain cl' rc2 evs2 where s: "storeImage ext (cl, rc1) pkt = Some (cl', rc2)"
    "trace rc2 = trace rc1 @ CallRtpDecode pkt # evs2"
    by blast
  have run: "onPacketRTP_passthrough ext (cl, fp, rc) pkt = Some (cl', fp', rc2)"
    using p(1) s(1) by (simp add: onPacketRTP_passthrough_def)
  have ev: "new_events rc rc2 = CallPacketPTS pkt # evs1 @ CallRtpDecode pkt # evs2"
    using p(3) s(2) by (simp add: new_events_def)
  show ?thesis using run ev by (simp add: precedes_def)
qed

theorem onPacketRTP_passthrough_order_witness:
  "client sample_camera = Some \<lparr>timeDec = 0, onPacketRTP = None, playing = True\<rparr> \<and>
   rawDecoder sample_camera = Some 0 \<and>
   map_option (\<lambda>s. new_events sample_camera (snd (snd s)))
     (onPacketRTP_passthrough sample_ext_fp_fails (fresh_closure, 0, sample_camera)
        (sample_packet 7 [101, 1])) =
     Some [CallPacketPTS (sample_packet 7 [101, 1]),
           CallProcessRTPPacket (sample_packet 7 [101, 1]) 7,
           CallRtpDecode (sample_packet 7 [101, 1]),
           CallRawDecode [101, 1],
           StoreFrame (Image 0)]"
  using onPacketRTP_passthrough_order
    [where rc = sample_camera and c = "\<lparr>timeDec = 0, onPacketRTP = None, playing = True\<rparr>"
       and d = 0 and ext = sample_ext_fp_fails and cl = fresh_closure and fp = 0
       and pkt = "sample_packet 7 [101, 1]"]
  by (simp add: sample_camera_def sample_ext_fp_fails_def sample_ext_def fresh_closure_def
        sample_packet_def onPacketRTP_passthrough_def publishToWebRTC_def storeImage_def
        called_def new_events_def)

text \<open>
  C2 as stated fails: on a packet that is published to two subscribers the calls of the
  passthrough path come before the call of the depacketizer of the decode path, so the
  decode path is not handed the packet first.
\<close>
theorem onPacketRTP_passthrough_order_counterexample:
  "map_option (\<lambda>s. new_events sample_camera (snd (snd s)))
     (onPacketRTP_passthrough sample_ext (fresh_closure, 0, sample_camera)
        (sample_packet 7 [101, 1])) =
     Some [CallPacketPTS (sample_packet 7 [101, 1]),
           CallProcessRTPPacket (sample_packet 7 [101, 1]) 7,
           CallPublish 1 (H264Unit \<lparr>AU = Some [[101, 1]], PTS = 7,
                                    RTPPackets = [sample_packet 7 [101, 1]]\<rparr>),
           CallPublish 2 (H264Unit \<lparr>AU = Some [[101, 1]], PTS = 7,
                                    RTPPackets = [sample_packet 7 [101, 1]]\<rparr>),
           CallRtpDecode (sample_packet 7 [101, 1]),
           CallRawDecode [101, 1],
           StoreFrame (Image 0)] \<and>
   \<not> precedes (CallRtpDecode (sample_packet 7 [101, 1])) (CallPacketPTS (sample_packet 7 [101, 1]))
       [CallPacketPTS (sample_packet 7 [101, 1]),
        CallProcessRTPPacket (sample_packet 7 [101, 1]) 7,
        CallPublish 1 (H264Unit \<lparr>AU = Some [[101, 1]], PTS = 7,
                                 RTPPackets = [sample_packet 7 [101, 1]]\<rparr>),
        CallPublish 2 (H264Unit \<lparr>AU = Some [[101, 1]], PTS = 7,
                                 RTPPackets = [sample_packet 7 [101, 1]]\<rparr>),
        CallRtpDecode (sample_packet 7 [101, 1]),
        CallRawDecode [101, 1],
        StoreFrame (Image 0)]"
  by (simp add: sample_camera_def sample_ext_def fresh_closure_def
        sample_packet_def onPacketRTP_passthrough_def publishToWebRTC_def storeImage_def
        called_def new_events_def precedes_def)

text \<open>
  C10. In a passthrough session, whatever the closure variables of \<open>storeImage\<close> are (the
  gate \<open>iFrameReceived\<close> included): when \<open>PacketPTS\<close> gives a timestamp and the format
  processor returns a unit \<open>u\<close>, the callback calls \<open>Publish\<close> with \<open>u\<close> once for every entry
  of the registry, also in a call that leaves the gate false and \<open>latestFrame\<close> untouched.
\<close>
theorem onPacketRTP_passthrough_publishes:
  assumes "client rc = Some c"
      and "rawDecoder rc = Some d"
      and "packetPTS ext (timeDec c) pkt = (Some pts, t')"
      and "processRTPPacket ext fp pkt pts = (Inr u, fp')"
  shows "\<exists>cl' rc'. onPacketRTP_passthrough ext (cl, fp, rc) pkt = Some (cl', fp', rc') \<and>
           filter isPublish (new_events rc rc') =
             map (\<lambda>(ident, s). CallPublish ident u) (subAndCBByID rc) \<and>
           (\<not> iFrameReceived cl' \<longrightarrow> latestFrame rc' = latestFrame rc)"
proof -
  from publishToWebRTC_publishes [OF assms(1,3,4)]
  obtain rc1 where p: "publishToWebRTC ext (fp, rc) pkt = Some (fp', rc1)"
    "rawDecoder rc1 = rawDecoder rc" "latestFrame rc1 = latestFrame rc"
    "trace rc1 = trace rc @ [CallPacketPTS pkt, CallProcessRTPPacket pkt pts] @
                   map (\<lambda>(ident, s). CallPublish ident u) (subAndCBByID rc)"
    by blast
  have "rawDecoder rc1 = Some d" using p(2) assms(2) by simp
  from storeImage_total [OF this, of ext cl pkt]
  obtain cl' rc2 evs2 where s: "storeImage ext (cl, rc1) pkt = Some (cl', rc2)"
    "trace rc2 = trace rc1 @ CallRtpDecode pkt # evs2" "list_all isDecodeEvent evs2"
    by blast
  have run: "onPacketRTP_passthrough ext (cl, fp, rc) pkt = Some (cl', fp', rc2)"
    using p(1) s(1) by (simp add: onPacketRTP_passthrough_def)
  have ev: "filter isPublish (new_events rc rc2) =
              map (\<lambda>(ident, s). CallPublish ident u) (subAndCBByID rc)"
    using p(4) s(2) filter_isPublish_decode [OF s(3)]
    by (simp add: new_events_def filter_isPublish_publishes)
  have slot: "\<not> iFrameReceived cl' \<longrightarrow> latestFrame rc2 = latestFrame rc"
    using storeImage_gate [OF s(1)] p(3) by (auto simp add: called_def)
  show ?thesis using run ev slot by blast
qed

theorem onPacketRTP_passthrough_publishes_witness:
  "client sample_camera = Some \<lparr>timeDec = 0, onPacketRTP = None, playing = True\<rparr> \<and>
   rawDecoder sample_camera = Some 0 \<and>
   packetPTS sample_ext 0 (sample_packet 7 [65, 1]) = (Some 7, 1) \<and>
   processRTPPacket sample_ext 0 (sample_packet 7 [65, 1]) 7 =
     (Inr (H264Unit \<lparr>AU = Some [[65, 1]], PTS = 7, RTPPackets = [sample_packet 7 [65, 1]]\<rparr>), 1) \<and>
   \<not> iFrameReceived fresh_closure \<and>
   map_option (\<lambda>s. (iFrameReceived (fst s), latestFrame (snd (snd s)),
                     filter isPublish (new_events sample_camera (snd (snd s)))))
     (onPacketRTP_passthrough sample_ext (fresh_closure, 0, sample_camera)
        (sample_packet 7 [65, 1])) =
     Some (False, None,
           [CallPublish 1 (H264Unit \<lparr>AU = Some [[65, 1]], PTS = 7,
                                     RTPPackets = [sample_packet 7 [65, 1]]\<rparr>),
            CallPublish 2 (H264Unit \<lparr>AU = Some [[65, 1]], PTS = 7,
                                     RTPPackets = [sample_packet 7 [65, 1]]\<rparr>)])"
  using onPacketRTP_passthrough_publishes
    [where rc = sample_camera and c = "\<lparr>timeDec = 0, onPacketRTP = None, playing = True\<rparr>"
       and d = 0 and ext = sample_ext and cl = fresh_closure and fp = 0
       and pkt = "sample_packet 7 [65, 1]" and pts = 7 and t' = 1 and fp' = 1
       and u = "H264Unit \<lparr>AU = Some [[65, 1]], PTS = 7, RTPPackets = [sample_packet 7 [65, 1]]\<rparr>"]
  by (simp add: sample_camera_def sample_ext_def fresh_closure_def
        sample_packet_def onPacketRTP_passthrough_def publishToWebRTC_def storeImage_def
        called_def new_events_def)

section \<open>Properties of connecting\<close>

lemma closeConnection_closed:
  "client (closeConnection rc) = None \<and> rawDecoder (closeConnection rc) = None \<and>
   latestFrame (closeConnection rc) = latestFrame rc \<and>
   rtpH264Passthrough (closeConnection rc) = rtpH264Passthrough rc \<and>
   subAndCBByID (closeConnection rc) = subAndCBByID rc \<and>
   (\<exists>evs. trace (closeConnection rc) = trace rc @ evs \<and> \<not> list_ex isCreation evs)"
  by (simp add: closeConnection_def called_def split: option.splits)

lemma feedParam_fields:
  "client (feedParam ext p rc) = client rc \<and>
   rtpH264Passthrough (feedParam ext p rc) = rtpH264Passthrough rc \<and>
   (rawDecoder (feedParam ext p rc) = None) = (rawDecoder rc = None)"
  by (simp add: feedParam_def called_def split: option.splits)

lemma feedParam_decoder:
  "(\<exists>y. rawDecoder (feedParam ext p rc) = Some y) = (\<exists>y. rawDecoder rc = Some y)"
  by (simp add: feedParam_def called_def split: option.splits)

lemma reconnectBody_flag:
  "reconnectBody env ext rc = (err, ok, rc') \<Longrightarrow> ok = (err = None)"
  by (auto simp add: reconnectBody_def Let_def
           split: sum.splits videoCodec.splits option.splits prod.splits dest: sym)

lemma reconnectClient_failure_after_start:
  assumes "startResult env = None"
      and "reconnectClient env ext (Some rc) = (Some e, rcp)"
  shows "\<exists>rc'. rcp = Some rc' \<and> client rc' = None \<and> rawDecoder rc' = None"
proof -
  let ?rc2 = "called ClientStart
                ((closeConnection rc)\<lparr>client := Some \<lparr>timeDec = newClientState env, onPacketRTP = None,
                                                        playing = False\<rparr>\<rparr>)"
  obtain err ok rc3 where b: "reconnectBody env ext ?rc2 = (err, ok, rc3)"
    by (cases "reconnectBody env ext ?rc2")
  from reconnectBody_flag [OF b] have "ok = (err = None)" .
  then show ?thesis using assms b closeConnection_closed [of rc3]
    by (auto simp add: reconnectClient_def Let_def)
qed

lemma reconnectClient_start_failure:
  assumes "startResult env = Some e"
  shows "\<exists>rc'. reconnectClient env ext (Some rc) = (Some e, Some rc') \<and>
           client rc' = Some \<lparr>timeDec = newClientState env, onPacketRTP = None, playing = False\<rparr> \<and>
           rawDecoder rc' = None"
  using assms closeConnection_closed [of rc]
  by (simp add: reconnectClient_def Let_def called_def)

text \<open>
  A successful \<open>initH264\<close> leaves a raw decoder on the camera and registers the callback
  with \<open>publishToWebRTC\<close> exactly when passthrough is enabled; the gate \<open>iFrameReceived\<close> of
  the callback is false, as the properties of the decode path assume of a new pipeline.
\<close>
lemma initH264_fresh_gate:
  assumes "initH264 env ext sess rc = (None, rc')"
      and "client rc = Some c"
  shows "\<exists>cl. \<not> iFrameReceived cl \<and> rawDecoder rc' \<noteq> None \<and>
           (if rtpH264Passthrough rc then \<exists>fp. registeredHandler rc' = Some (H264Passthrough cl fp)
            else registeredHandler rc' = Some (H264Raw cl))"
  using assms
  by (auto simp add: initH264_def Let_def called_def registerHandler_def registeredHandler_def
           feedParam_fields feedParam_decoder split: option.splits sum.splits if_splits)

text \<open>
  C3. With passthrough enabled and an SDP without an H264 track, \<open>reconnectClient\<close>
  returns an error whatever the other steps answer; afterwards the camera has no raw
  decoder and no packet callback (which would hold the depacketizer and the format
  processor), and no depacketizer, raw decoder or format processor has been created on
  the way. When \<open>Start\<close> succeeds the client is closed and removed as well, and when
  \<open>getStreamInfo\<close> reports H265 the error is the one of \<open>initH265\<close> about passthrough.
\<close>
theorem reconnectClient_h265_with_passthrough:
  assumes "rtpH264Passthrough rc"
      and "describeResult env = Inr sess"
      and "h264Format sess = None"
  shows "\<exists>e rc'. reconnectClient env ext (Some rc) = (Some e, Some rc') \<and>
           rawDecoder rc' = None \<and> registeredHandler rc' = None \<and>
           \<not> list_ex isCreation (new_events rc rc') \<and>
           (startResult env = None \<longrightarrow> client rc' = None) \<and>
           (startResult env = None \<longrightarrow> streamInfoResult env = Inr H265 \<longrightarrow> e = ErrH265WithPassthrough)"
proof -
  let ?rc1 = "closeConnection rc"
  let ?rc2 = "called ClientStart
                (?rc1\<lparr>client := Some \<lparr>timeDec = newClientState env, onPacketRTP = None,
                                       playing = False\<rparr>\<rparr>)"
  from closeConnection_closed [of rc]
  obtain evs where c1: "rawDecoder ?rc1 = None" "rtpH264Passthrough ?rc1"
    "trace ?rc1 = trace rc @ evs" "\<not> list_ex isCreation evs"
    using assms(1) by auto
  show ?thesis
  proof (cases "startResult env")
    case (Some e)
    then show ?thesis using c1
      by (simp add: reconnectClient_def Let_def called_def registeredHandler_def new_events_def)
  next
    case None
    have body: "\<exists>e rc3 evs3. reconnectBody env ext ?rc2 = (Some e, False, rc3) \<and>
                 rawDecoder rc3 = None \<and> trace rc3 = trace ?rc2 @ evs3 \<and>
                 \<not> list_ex isCreation evs3 \<and>
                 (streamInfoResult env = Inr H265 \<longrightarrow> e = ErrH265WithPassthrough)"
      using assms(2,3) c1(1,2)
      by (auto simp add: reconnectBody_def initH264_def initH265_def Let_def called_def
               split: sum.splits videoCodec.splits)
    then obtain e rc3 evs3 where b: "reconnectBody env ext ?rc2 = (Some e, False, rc3)"
      "rawDecoder rc3 = None" "trace rc3 = trace ?rc2 @ evs3" "\<not> list_ex isCreation evs3"
      "streamInfoResult env = Inr H265 \<longrightarrow> e = ErrH265WithPassthrough"
      by blast
    from closeConnection_closed [of rc3]
    obtain evs4 where c4: "client (closeConnection rc3) = None" "rawDecoder (closeConnection rc3) = None"
      "trace (closeConnection rc3) = trace rc3 @ evs4" "\<not> list_ex isCreation evs4"
      by auto
    have r: "reconnectClient env ext (Some rc) = (Some e, Some (closeConnection rc3))"
      using None b(1) by (simp add: reconnectClient_def Let_def)
    have ev: "new_events rc (closeConnection rc3) = evs @ [ClientStart] @ evs3 @ evs4"
      using c1(3) b(3) c4(3) by (simp add: new_events_def called_def)
    show ?thesis using None r c4 b(5) ev c1(4) b(4)
      by (simp add: registeredHandler_def)
  qed
qed

theorem reconnectClient_h265_with_passthrough_witness:
  "rtpH264Passthrough (new_camera True) \<and>
   describeResult sample_env = Inr sample_session265 \<and>
   h264Format sample_session265 = None \<and>
   reconnectClient sample_env sample_ext (Some (new_camera True)) =
     (Some ErrH265WithPassthrough,
      Some ((new_camera True)\<lparr>trace := [ClientStart, ClientDescribe, CallGetStreamInfo, ClientClose]\<rparr>))"
  using reconnectClient_h265_with_passthrough
    [where rc = "new_camera True" and env = sample_env and sess = sample_session265
       and ext = sample_ext]
  by (simp add: new_camera_def sample_env_def sample_session265_def reconnectClient_def
        reconnectBody_def initH265_def closeConnection_def called_def)

text \<open>
  C4. The property fails when the first step fails: \<open>reconnectClient\<close> returns the error
  of \<open>Start\<close> before the deferred \<open>closeConnection\<close> is installed, and the client it has
  just created stays on the camera. For the failures of all later steps the property
  holds (\<open>reconnectClient_failure_after_start\<close>).
\<close>
theorem reconnectClient_start_failure_keeps_client:
  "fst (reconnectClient sample_env_start_fails sample_ext (Some (new_camera False))) =
     Some (ErrLibrary 3) \<and>
   map_option client (snd (reconnectClient sample_env_start_fails sample_ext (Some (new_camera False)))) =
     Some (Some \<lparr>timeDec = 0, onPacketRTP = None, playing = False\<rparr>)"
  by (simp add: reconnectClient_def sample_env_start_fails_def sample_env_def new_camera_def
        closeConnection_def called_def)

end
